theory Spec2Isabelle
  imports Complex_Main
begin

section \<open>JavaScript values\<close>

text \<open>
  The handler of \<^verbatim>\<open>BACKEND/src/controller/ai.controller.js\<close> is dynamically typed: the
  request body, its \<^verbatim>\<open>code\<close> field, the value the generation client resolves with and
  the value it rejects with can each be any JavaScript value. The values that a parsed
  request body or a thrown error can be are modelled as data. A number is an IEEE double;
  only its being zero or NaN matters to the handler, so the finite non-zero doubles are
  over-approximated by the rationals. An object is the list of its properties (own and
  inherited), looked up by name; what it keeps for a name is what reading that property
  does: it gives a value (a data property, a getter or a proxy trap that returns) or it
  throws a value (a getter or a trap that throws, a revoked proxy).
\<close>

datatype jsnum = NaN | Infinity bool | NegZero | Finite rat

datatype 'v property = Gives 'v | Throws 'v

datatype jsval =
    JUndefined
  | JNull
  | JBool bool
  | JNum jsnum
  | JStr string
  | JArr "jsval list"
  | JObj "(string \<times> jsval property) list"

text \<open>
  \<^verbatim>\<open>!code\<close> applies the language's ToBoolean: undefined, null, false, +0, -0, NaN and
  the empty string are falsy; every other value, every array and object included, is truthy.
\<close>

fun num_truthy :: "jsnum \<Rightarrow> bool" where
  "num_truthy NaN = False"
| "num_truthy NegZero = False"
| "num_truthy (Infinity negative) = True"
| "num_truthy (Finite q) = (q \<noteq> 0)"

fun truthy :: "jsval \<Rightarrow> bool" where
  "truthy JUndefined = False"
| "truthy JNull = False"
| "truthy (JBool b) = b"
| "truthy (JNum n) = num_truthy n"
| "truthy (JStr s) = (s \<noteq> [])"
| "truthy (JArr xs) = True"
| "truthy (JObj kvs) = True"

text \<open>
  A property read \<^verbatim>\<open>v.p\<close>. On undefined and on null it throws a TypeError (the message
  is the one of V8); the thrown value is the \<open>Inl\<close> result. On an object it is what
  the property gives or throws, and undefined when there is none. The handler reads two
  names only, \<^verbatim>\<open>code\<close> and \<^verbatim>\<open>message\<close>; no prototype of a string, number, boolean
  or array defines either, so on those values the read gives undefined.
\<close>

definition type_error :: "string \<Rightarrow> jsval" where
  "type_error m = JObj [(''name'', Gives (JStr ''TypeError'')), (''message'', Gives (JStr m))]"

definition cannot_read :: "string \<Rightarrow> string \<Rightarrow> jsval" where
  "cannot_read base p =
     type_error (''Cannot read properties of '' @ base @ '' (reading '' @ [CHR 0x27] @ p @ [CHR 0x27] @ '')'')"

fun get_prop :: "jsval \<Rightarrow> string \<Rightarrow> jsval + jsval" where
  "get_prop JUndefined p = Inl (cannot_read ''undefined'' p)"
| "get_prop JNull p = Inl (cannot_read ''null'' p)"
| "get_prop (JObj kvs) p =
     (case map_of kvs p of
        None \<Rightarrow> Inr JUndefined
      | Some (Gives v) \<Rightarrow> Inr v
      | Some (Throws thrown) \<Rightarrow> Inl thrown)"
| "get_prop (JBool b) p = Inr JUndefined"
| "get_prop (JNum n) p = Inr JUndefined"
| "get_prop (JStr s) p = Inr JUndefined"
| "get_prop (JArr xs) p = Inr JUndefined"

section \<open>The request, the response object, the console and the generation client\<close>

text \<open>
  Of the Express request the handler reads \<^verbatim>\<open>req.body\<close> only; \<open>headers\<close> and \<open>query\<close>
  stand for the rest of the request, and the record is extensible. \<^verbatim>\<open>req.body\<close> is
  undefined for a request of which no body was parsed.
\<close>

record request =
  body :: jsval
  headers :: "(string \<times> string) list"
  query :: "(string \<times> string) list"

text \<open>
  The generation client \<^verbatim>\<open>aiService\<close> comes from \<^verbatim>\<open>../services/ai.service.js\<close>, which
  is not part of the sources at hand: it is a parameter of the handler, a function from the
  argument of the call to the way the returned promise settles. A call that throws before
  returning a promise reaches the same \<^verbatim>\<open>catch\<close> as a rejected promise and is a
  \<open>Rejects\<close> too.
\<close>

datatype outcome = Resolves jsval | Rejects jsval

type_synonym client = "jsval \<Rightarrow> outcome"

text \<open>A client that settles the same way whatever it is called with, as a test double does.\<close>

definition stub_client :: "outcome \<Rightarrow> client" where
  "stub_client out code = out"

text \<open>A client that resolves with the very value it is called with.\<close>

definition echo_client :: client where
  "echo_client code = Resolves code"

text \<open>
  Everything the handler does to the outside is an event, kept in program order: the call
  of the client, the settling of its promise (where \<^verbatim>\<open>await\<close> resumes), a line written
  by \<^verbatim>\<open>console.error\<close> (its arguments), and a response sent by \<^verbatim>\<open>res.send\<close> with the
  status code set at that moment. \<^verbatim>\<open>res\<close> is the response object as a recorder:
  \<^verbatim>\<open>res.status(n)\<close> stores the status code and returns \<^verbatim>\<open>res\<close>, \<^verbatim>\<open>res.send(b)\<close>
  sends \<open>b\<close>. A new response object has status code 200.
\<close>

datatype event =
    AiCall jsval
  | AiSettled outcome
  | ConsoleError "jsval list"
  | Send nat jsval

record world =
  statusCode :: nat
  trace :: "event list"

definition fresh :: world where
  "fresh = \<lparr>statusCode = 200, trace = []\<rparr>"

definition emit :: "event \<Rightarrow> world \<Rightarrow> world" where
  "emit e w = w\<lparr>trace := trace w @ [e]\<rparr>"

definition res_status :: "nat \<Rightarrow> world \<Rightarrow> world" where
  "res_status n w = w\<lparr>statusCode := n\<rparr>"

definition res_send :: "jsval \<Rightarrow> world \<Rightarrow> world" where
  "res_send b w = emit (Send (statusCode w) b) w"

definition console_error :: "jsval list \<Rightarrow> world \<Rightarrow> world" where
  "console_error args w = emit (ConsoleError args) w"

section \<open>The handler\<close>

text \<open>
  \<^verbatim>\<open>
  module.exports.getReview = async (req, res) => {
    try {
      const code = req.body.code;
      if (!code) {
        return res.status(400).send("Prompt is required");
      }
      const response = await aiService(code);
      res.status(200).send(response);
    } catch (error) {
      console.error("Error in controller:", error.message);
      res.status(500).send("An error occurred while processing your request.");
    }
  };
  \<close>
  An async function returns a promise: it is fulfilled when the body returns, and rejected
  with the thrown value when the body throws. The \<^verbatim>\<open>catch\<close> block is not itself guarded,
  so what \<^verbatim>\<open>error.message\<close> throws leaves the function.
\<close>

datatype completion = Fulfilled | Rejected jsval

definition prompt_required :: string where
  "prompt_required = ''Prompt is required''"

definition generic_failure :: string where
  "generic_failure = ''An error occurred while processing your request.''"

definition catch_block :: "jsval \<Rightarrow> world \<Rightarrow> completion \<times> world" where
  "catch_block error w =
     (case get_prop error ''message'' of
        Inl thrown \<Rightarrow> (Rejected thrown, w)
      | Inr m \<Rightarrow>
          (Fulfilled,
           res_send (JStr generic_failure)
             (res_status 500 (console_error [JStr ''Error in controller:'', m] w))))"

text \<open>
  The body runs in two parts. \<open>getReview_begin\<close> runs up to the \<^verbatim>\<open>await\<close>: it either
  finishes (validation failed, or reading the field threw) or has called the client and is
  suspended on its promise. \<open>getReview_resume\<close> is the rest, run when the promise settles.
\<close>

datatype task = Finished completion world | Awaiting jsval world

definition getReview_begin :: "'a request_scheme \<Rightarrow> world \<Rightarrow> task" where
  "getReview_begin req w =
     (case get_prop (body req) ''code'' of
        Inl thrown \<Rightarrow> (case catch_block thrown w of (c, w') \<Rightarrow> Finished c w')
      | Inr code \<Rightarrow>
          if \<not> truthy code
          then Finished Fulfilled (res_send (JStr prompt_required) (res_status 400 w))
          else Awaiting code (emit (AiCall code) w))"

definition getReview_resume :: "outcome \<Rightarrow> world \<Rightarrow> completion \<times> world" where
  "getReview_resume out w =
     (case out of
        Resolves response \<Rightarrow>
          (Fulfilled, res_send response (res_status 200 (emit (AiSettled out) w)))
      | Rejects error \<Rightarrow> catch_block error (emit (AiSettled out) w))"

definition getReview :: "client \<Rightarrow> 'a request_scheme \<Rightarrow> world \<Rightarrow> completion \<times> world" where
  "getReview aiService req w =
     (case getReview_begin req w of
        Finished c w' \<Rightarrow> (c, w')
      | Awaiting code w' \<Rightarrow> getReview_resume (aiService code) w')"

text \<open>One request, handled with a new response object: the events, and how the promise ends.\<close>

definition run :: "client \<Rightarrow> 'a request_scheme \<Rightarrow> event list" where
  "run aiService req = trace (snd (getReview aiService req fresh))"

definition completes :: "client \<Rightarrow> 'a request_scheme \<Rightarrow> completion" where
  "completes aiService req = fst (getReview aiService req fresh)"

subsection \<open>What an observer sees in the events\<close>

fun responses :: "event list \<Rightarrow> (nat \<times> jsval) list" where
  "responses [] = []"
| "responses (Send s b # t) = (s, b) # responses t"
| "responses (e # t) = responses t"

fun ai_calls :: "event list \<Rightarrow> jsval list" where
  "ai_calls [] = []"
| "ai_calls (AiCall a # t) = a # ai_calls t"
| "ai_calls (e # t) = ai_calls t"

fun log_lines :: "event list \<Rightarrow> jsval list list" where
  "log_lines [] = []"
| "log_lines (ConsoleError args # t) = args # log_lines t"
| "log_lines (e # t) = log_lines t"

text \<open>
  The ways the client's calls settled, as the handler received them, and the review
  results: the values the client resolved with.
\<close>

fun settlements :: "event list \<Rightarrow> outcome list" where
  "settlements [] = []"
| "settlements (AiSettled out # t) = out # settlements t"
| "settlements (e # t) = settlements t"

fun results :: "event list \<Rightarrow> jsval list" where
  "results [] = []"
| "results (AiSettled (Resolves r) # t) = r # results t"
| "results (e # t) = results t"

text \<open>
  The check \<^verbatim>\<open>if (!code)\<close> lets a request through when its \<^verbatim>\<open>code\<close> field can be
  read and is truthy.
\<close>

definition validated :: "'a request_scheme \<Rightarrow> bool" where
  "validated req = (case get_prop (body req) ''code'' of Inl thrown \<Rightarrow> False | Inr code \<Rightarrow> truthy code)"

subsection \<open>Requests of the scenarios\<close>

definition scenario_A :: request where
  "scenario_A =
     \<lparr>body = JObj [(''code'', Gives (JStr ''function sum(){return a+b;}''))],
      headers = [], query = []\<rparr>"

definition scenario_B :: request where
  "scenario_B = \<lparr>body = JObj [(''code'', Gives (JStr ''''))], headers = [], query = []\<rparr>"

definition scenario_C :: request where
  "scenario_C = \<lparr>body = JObj [], headers = [], query = []\<rparr>"

definition scenario_A_tagged :: request where
  "scenario_A_tagged =
     \<lparr>body = JObj [(''language'', Gives (JStr ''js'')),
        (''code'', Gives (JStr ''function sum(){return a+b;}''))],
      headers = [(''x-request-id'', ''42'')], query = [(''verbose'', ''1'')]\<rparr>"

definition api_failure :: jsval where
  "api_failure =
     JObj [(''name'', Gives (JStr ''Error'')), (''message'', Gives (JStr ''quota exceeded''))]"

text \<open>A request of which no body was parsed.\<close>

definition scenario_no_body :: request where
  "scenario_no_body = \<lparr>body = JUndefined, headers = [], query = []\<rparr>"

section \<open>The paths of the handler\<close>

lemmas handler_defs =
  getReview_def getReview_begin_def getReview_resume_def catch_block_def
  res_send_def res_status_def console_error_def emit_def

lemma path_invalid:
  assumes "get_prop (body req) ''code'' = Inr code" and "\<not> truthy code"
  shows "getReview ai req w =
           (Fulfilled, \<lparr>statusCode = 400, trace = trace w @ [Send 400 (JStr prompt_required)]\<rparr>)"
  using assms by (simp add: handler_defs)

lemma path_success:
  assumes "get_prop (body req) ''code'' = Inr code" and "truthy code"
    and "ai code = Resolves r"
  shows "getReview ai req w =
           (Fulfilled, \<lparr>statusCode = 200,
              trace = trace w @ [AiCall code, AiSettled (Resolves r), Send 200 r]\<rparr>)"
  using assms by (simp add: handler_defs)

lemma path_failure:
  assumes "get_prop (body req) ''code'' = Inr code" and "truthy code"
    and "ai code = Rejects e" and "get_prop e ''message'' = Inr m"
  shows "getReview ai req w =
           (Fulfilled, \<lparr>statusCode = 500,
              trace = trace w @ [AiCall code, AiSettled (Rejects e),
                ConsoleError [JStr ''Error in controller:'', m], Send 500 (JStr generic_failure)]\<rparr>)"
  using assms by (simp add: handler_defs)

lemma path_failure_unreadable:
  assumes "get_prop (body req) ''code'' = Inr code" and "truthy code"
    and "ai code = Rejects e" and "get_prop e ''message'' = Inl thrown"
  shows "getReview ai req w =
           (Rejected thrown, \<lparr>statusCode = statusCode w,
              trace = trace w @ [AiCall code, AiSettled (Rejects e)]\<rparr>)"
  using assms by (simp add: handler_defs)

lemma path_read_throws:
  assumes "get_prop (body req) ''code'' = Inl thrown" and "get_prop thrown ''message'' = Inr m"
  shows "getReview ai req w =
           (Fulfilled, \<lparr>statusCode = 500,
              trace = trace w @ [ConsoleError [JStr ''Error in controller:'', m],
                Send 500 (JStr generic_failure)]\<rparr>)"
  using assms by (simp add: handler_defs)

lemma path_read_throws_unreadable:
  assumes "get_prop (body req) ''code'' = Inl thrown" and "get_prop thrown ''message'' = Inl thrown'"
  shows "getReview ai req w = (Rejected thrown', w)"
  using assms by (simp add: handler_defs)

text \<open>
  A request without a body: reading \<^verbatim>\<open>req.body.code\<close> throws a TypeError, whose
  message the \<^verbatim>\<open>catch\<close> block logs before it answers 500.
\<close>

lemma path_no_body:
  assumes "body req = JUndefined \<or> body req = JNull"
  shows "\<exists>m. getReview ai req w =
             (Fulfilled, \<lparr>statusCode = 500,
                trace = trace w @ [ConsoleError [JStr ''Error in controller:'', JStr m],
                  Send 500 (JStr generic_failure)]\<rparr>)"
proof -
  from assms obtain m where "get_prop (body req) ''code'' = Inl (type_error m)"
    by (auto simp: cannot_read_def)
  moreover have "get_prop (type_error m) ''message'' = Inr (JStr m)"
    by (simp add: type_error_def)
  ultimately show ?thesis
    using path_read_throws [of req "type_error m" "JStr m" ai w] by blast
qed

lemma run_invalid:
  assumes "get_prop (body req) ''code'' = Inr code" and "\<not> truthy code"
  shows "run ai req = [Send 400 (JStr prompt_required)]" and "completes ai req = Fulfilled"
  using path_invalid [OF assms, of ai fresh] by (simp_all add: run_def completes_def fresh_def)

lemma run_success:
  assumes "get_prop (body req) ''code'' = Inr code" and "truthy code" and "ai code = Resolves r"
  shows "run ai req = [AiCall code, AiSettled (Resolves r), Send 200 r]"
    and "completes ai req = Fulfilled"
  using assms path_success [of req code ai r fresh] by (simp_all add: run_def completes_def fresh_def)

lemma run_failure:
  assumes "get_prop (body req) ''code'' = Inr code" and "truthy code"
    and "ai code = Rejects e" and "get_prop e ''message'' = Inr m"
  shows "run ai req = [AiCall code, AiSettled (Rejects e),
           ConsoleError [JStr ''Error in controller:'', m], Send 500 (JStr generic_failure)]"
    and "completes ai req = Fulfilled"
  using assms path_failure [of req code ai e m fresh] by (simp_all add: run_def completes_def fresh_def)

lemma run_failure_unreadable:
  assumes "get_prop (body req) ''code'' = Inr code" and "truthy code"
    and "ai code = Rejects e" and "get_prop e ''message'' = Inl thrown"
  shows "run ai req = [AiCall code, AiSettled (Rejects e)]"
    and "completes ai req = Rejected thrown"
  using assms path_failure_unreadable [of req code ai e thrown fresh]
  by (simp_all add: run_def completes_def fresh_def)

lemma run_read_throws:
  assumes "get_prop (body req) ''code'' = Inl thrown" and "get_prop thrown ''message'' = Inr m"
  shows "run ai req = [ConsoleError [JStr ''Error in controller:'', m],
           Send 500 (JStr generic_failure)]"
    and "completes ai req = Fulfilled"
  using path_read_throws [OF assms, of ai fresh] by (simp_all add: run_def completes_def fresh_def)

lemma run_read_throws_unreadable:
  assumes "get_prop (body req) ''code'' = Inl thrown" and "get_prop thrown ''message'' = Inl thrown'"
  shows "run ai req = []" and "completes ai req = Rejected thrown'"
  using path_read_throws_unreadable [OF assms, of ai fresh]
  by (simp_all add: run_def completes_def fresh_def)

text \<open>Every run of the handler takes one of six paths.\<close>

lemma run_cases
  [case_names read_throws read_throws_unreadable invalid success failure unreadable]:
  obtains
    (read_throws) thrown m where
      "get_prop (body req) ''code'' = Inl thrown" "get_prop thrown ''message'' = Inr m"
      "run ai req = [ConsoleError [JStr ''Error in controller:'', m],
         Send 500 (JStr generic_failure)]"
      "completes ai req = Fulfilled"
  | (read_throws_unreadable) thrown thrown' where
      "get_prop (body req) ''code'' = Inl thrown" "get_prop thrown ''message'' = Inl thrown'"
      "run ai req = []"
      "completes ai req = Rejected thrown'"
  | (invalid) code where
      "get_prop (body req) ''code'' = Inr code" "\<not> truthy code"
      "run ai req = [Send 400 (JStr prompt_required)]"
      "completes ai req = Fulfilled"
  | (success) code r where
      "get_prop (body req) ''code'' = Inr code" "truthy code" "ai code = Resolves r"
      "run ai req = [AiCall code, AiSettled (Resolves r), Send 200 r]"
      "completes ai req = Fulfilled"
  | (failure) code e m where
      "get_prop (body req) ''code'' = Inr code" "truthy code" "ai code = Rejects e"
      "get_prop e ''message'' = Inr m"
      "run ai req = [AiCall code, AiSettled (Rejects e),
         ConsoleError [JStr ''Error in controller:'', m], Send 500 (JStr generic_failure)]"
      "completes ai req = Fulfilled"
  | (unreadable) code e thrown where
      "get_prop (body req) ''code'' = Inr code" "truthy code" "ai code = Rejects e"
      "get_prop e ''message'' = Inl thrown"
      "run ai req = [AiCall code, AiSettled (Rejects e)]"
      "completes ai req = Rejected thrown"
proof (cases "get_prop (body req) ''code''")
  case (Inl thrown)
  show ?thesis
  proof (cases "get_prop thrown ''message''")
    case inl: (Inl thrown')
    with Inl run_read_throws_unreadable [of req thrown thrown' ai] read_throws_unreadable
    show ?thesis by blast
  next
    case (Inr m)
    with Inl run_read_throws [of req thrown m ai] read_throws show ?thesis by blast
  qed
next
  case (Inr code)
  show ?thesis
  proof (cases "truthy code")
    case False
    with Inr run_invalid [of req code ai] invalid show ?thesis by blast
  next
    case True
    show ?thesis
    proof (cases "ai code")
      case (Resolves r)
      with Inr True run_success [of req code ai r] success show ?thesis by blast
    next
      case (Rejects e)
      show ?thesis
      proof (cases "get_prop e ''message''")
        case (Inl thrown)
        with Inr True Rejects run_failure_unreadable [of req code ai e thrown] unreadable
        show ?thesis by blast
      next
        case inr: (Inr m)
        with Inr True Rejects run_failure [of req code ai e m] failure
        show ?thesis by blast
      qed
    qed
  qed
qed

text \<open>
  A request that passes the check: the handler suspends having called the client with the
  value read, the rest of the run is the continuation applied to what the client answers
  to that value, and the run holds that one call and that one settlement.
\<close>

lemma call_of_valid:
  assumes "get_prop (body req) ''code'' = Inr code" and "truthy code"
  shows "getReview_begin req fresh = Awaiting code (emit (AiCall code) fresh)"
    and "getReview ai req fresh = getReview_resume (ai code) (emit (AiCall code) fresh)"
    and "\<exists>post. run ai req = AiCall code # AiSettled (ai code) # post
           \<and> ai_calls post = [] \<and> settlements post = []"
proof -
  show "getReview_begin req fresh = Awaiting code (emit (AiCall code) fresh)"
    using assms by (simp add: getReview_begin_def)
  then show "getReview ai req fresh = getReview_resume (ai code) (emit (AiCall code) fresh)"
    by (simp add: getReview_def)
  show "\<exists>post. run ai req = AiCall code # AiSettled (ai code) # post
          \<and> ai_calls post = [] \<and> settlements post = []"
  proof (cases "ai code")
    case (Resolves r)
    from assms Resolves run_success(1) [of req code ai r] show ?thesis by simp
  next
    case (Rejects e)
    show ?thesis
    proof (cases "get_prop e ''message''")
      case (Inl thrown)
      from assms Rejects Inl run_failure_unreadable(1) [of req code ai e thrown]
      show ?thesis by simp
    next
      case (Inr m)
      from assms Rejects Inr run_failure(1) [of req code ai e m] show ?thesis by simp
    qed
  qed
qed

section \<open>The claims\<close>

text \<open>
  C1. The claim: for every request whose body's \<^verbatim>\<open>code\<close> field is absent, empty or
  otherwise falsy, the handler answers 400 with the body "Prompt is required" and does not
  call the client. The handler does so when the body can be read, as for the body
  \<^verbatim>\<open>{}\<close>. For a request with no body, whose \<^verbatim>\<open>code\<close> is absent too, the read
  \<^verbatim>\<open>req.body.code\<close> throws inside the \<^verbatim>\<open>try\<close>: the handler writes a log line and
  answers 500 with the generic failure message instead.
\<close>

theorem C1_no_body_answers_500:
  "body scenario_no_body = JUndefined
   \<and> responses (run (stub_client (Resolves (JStr ''fine''))) scenario_no_body)
       = [(500, JStr ''An error occurred while processing your request.'')]
   \<and> length (log_lines (run (stub_client (Resolves (JStr ''fine''))) scenario_no_body)) = 1
   \<and> ai_calls (run (stub_client (Resolves (JStr ''fine''))) scenario_no_body) = []
   \<and> responses (run (stub_client (Resolves (JStr ''fine''))) scenario_C)
       = [(400, JStr ''Prompt is required'')]"
  by (simp add: run_def handler_defs scenario_no_body_def scenario_C_def fresh_def
      cannot_read_def type_error_def prompt_required_def generic_failure_def)

text \<open>
  C2. The claim: for a request with a truthy \<^verbatim>\<open>code\<close>, whatever the client's call
  fails with, the handler answers 500 with the fixed body "An error occurred while
  processing your request.". The handler does so for an error object. When the client
  rejects with undefined, \<^verbatim>\<open>error.message\<close> throws inside the \<^verbatim>\<open>catch\<close> block
  before anything is logged or sent: there is no response, and the handler's promise is
  rejected with that TypeError.
\<close>

theorem C2_rejecting_with_undefined_sends_nothing:
  "get_prop (body scenario_A) ''code'' = Inr (JStr ''function sum(){return a+b;}'')
   \<and> truthy (JStr ''function sum(){return a+b;}'')
   \<and> stub_client (Rejects JUndefined) (JStr ''function sum(){return a+b;}'') = Rejects JUndefined
   \<and> responses (run (stub_client (Rejects JUndefined)) scenario_A) = []
   \<and> log_lines (run (stub_client (Rejects JUndefined)) scenario_A) = []
   \<and> completes (stub_client (Rejects JUndefined)) scenario_A
       = Rejected (cannot_read ''undefined'' ''message'')
   \<and> responses (run (stub_client (Rejects api_failure)) scenario_A)
       = [(500, JStr ''An error occurred while processing your request.'')]"
  by (simp add: run_def completes_def handler_defs scenario_A_def stub_client_def fresh_def
      api_failure_def generic_failure_def)

text \<open>
  C3. For a request with a truthy \<^verbatim>\<open>code\<close>, when the client resolves with the text
  \<open>T\<close>, the handler's only response is 200 with a body that is \<open>T\<close> itself.
\<close>

theorem C3_success_relays_text:
  assumes "get_prop (body req) ''code'' = Inr code" and "truthy code"
    and "ai code = Resolves (JStr T)"
  shows "responses (run ai req) = [(200, JStr T)] \<and> completes ai req = Fulfilled"
  using assms run_success [of req code ai "JStr T"] by simp

theorem C3_success_relays_text_witness:
  "get_prop (body scenario_A) ''code'' = Inr (JStr ''function sum(){return a+b;}'')
   \<and> truthy (JStr ''function sum(){return a+b;}'')
   \<and> responses (run (stub_client (Resolves (JStr ''  looks good  ''))) scenario_A)
       = [(200, JStr ''  looks good  '')]"
  using C3_success_relays_text [of scenario_A "JStr ''function sum(){return a+b;}''"
      "stub_client (Resolves (JStr ''  looks good  ''))" "''  looks good  ''"]
  by (simp add: scenario_A_def stub_client_def)

text \<open>
  C4. For a request whose \<^verbatim>\<open>code\<close> is a non-empty string, the handler calls the client
  exactly once, with that string: the run starts with the call on the string and the
  settling of the client's answer to that string, it holds no other call and no other
  settlement, and the rest of the handler runs on that answer.
\<close>

theorem C4_one_call_with_the_code:
  assumes "get_prop (body req) ''code'' = Inr (JStr s)" and "s \<noteq> []"
  shows "ai_calls (run ai req) = [JStr s]
         \<and> settlements (run ai req) = [ai (JStr s)]
         \<and> (\<exists>post. run ai req = AiCall (JStr s) # AiSettled (ai (JStr s)) # post)
         \<and> getReview ai req fresh = getReview_resume (ai (JStr s)) (emit (AiCall (JStr s)) fresh)"
proof -
  from assms have valid: "truthy (JStr s)" by simp
  from call_of_valid(3) [OF assms(1) valid, of ai]
  obtain post where "run ai req = AiCall (JStr s) # AiSettled (ai (JStr s)) # post"
    and "ai_calls post = []" and "settlements post = []"
    by blast
  moreover note call_of_valid(2) [OF assms(1) valid, of ai]
  ultimately show ?thesis by simp
qed

theorem C4_one_call_with_the_code_witness:
  "get_prop (body scenario_A) ''code'' = Inr (JStr ''function sum(){return a+b;}'')
   \<and> ''function sum(){return a+b;}'' \<noteq> []
   \<and> ai_calls (run echo_client scenario_A) = [JStr ''function sum(){return a+b;}'']
   \<and> settlements (run echo_client scenario_A)
       = [Resolves (JStr ''function sum(){return a+b;}'')]
   \<and> responses (run echo_client scenario_A) = [(200, JStr ''function sum(){return a+b;}'')]"
  using C4_one_call_with_the_code [of scenario_A "''function sum(){return a+b;}''" echo_client]
  by (simp add: scenario_A_def echo_client_def run_def getReview_resume_def res_send_def
      res_status_def emit_def fresh_def)

text \<open>
  C5. A review result (a value the client resolved with) exists in a run only when the
  request passed validation, and it is then the client's answer to the validated
  \<^verbatim>\<open>code\<close>; for a request that did not pass validation the client is never called and
  no result exists.
\<close>

theorem C5_result_needs_validation:
  "(\<forall>r \<in> set (results (run ai req)).
      validated req \<and> (\<exists>code. get_prop (body req) ''code'' = Inr code \<and> truthy code
        \<and> ai code = Resolves r \<and> ai_calls (run ai req) = [code]))
   \<and> (\<not> validated req \<longrightarrow> results (run ai req) = [] \<and> ai_calls (run ai req) = [])"
  by (cases ai req rule: run_cases) (simp_all add: validated_def)

theorem C5_result_needs_validation_witness:
  "results (run (stub_client (Resolves (JStr ''fine''))) scenario_A) = [JStr ''fine'']
   \<and> validated scenario_A
   \<and> \<not> validated scenario_B
   \<and> results (run (stub_client (Resolves (JStr ''fine''))) scenario_B) = []
   \<and> ai_calls (run (stub_client (Resolves (JStr ''fine''))) scenario_B) = []"
  using C5_result_needs_validation [of "stub_client (Resolves (JStr ''fine''))" scenario_A]
    C5_result_needs_validation [of "stub_client (Resolves (JStr ''fine''))" scenario_B]
  by (simp add: run_def handler_defs validated_def scenario_A_def scenario_B_def
      stub_client_def fresh_def)

text \<open>
  C6. In every run the handler writes exactly one log line if and only if it answers 500,
  and none otherwise (so none on the 200 and 400 outcomes); whenever a line is logged,
  the response is the fixed 500 body, the same whatever detail was logged.
\<close>

theorem C6_log_iff_500:
  "(length (log_lines (run ai req)) = 1) = (500 \<in> fst ` set (responses (run ai req)))
   \<and> (log_lines (run ai req) = []) = (500 \<notin> fst ` set (responses (run ai req)))
   \<and> (\<forall>line \<in> set (log_lines (run ai req)).
        (\<exists>detail. line = [JStr ''Error in controller:'', detail])
        \<and> responses (run ai req)
            = [(500, JStr ''An error occurred while processing your request.'')])"
  by (cases ai req rule: run_cases) (simp_all add: generic_failure_def)

theorem C6_log_iff_500_witness:
  "log_lines (run (stub_client (Rejects api_failure)) scenario_A)
     = [[JStr ''Error in controller:'', JStr ''quota exceeded'']]
   \<and> responses (run (stub_client (Rejects api_failure)) scenario_A)
     = [(500, JStr ''An error occurred while processing your request.'')]
   \<and> log_lines (run (stub_client (Resolves (JStr ''fine''))) scenario_A) = []
   \<and> log_lines (run (stub_client (Resolves (JStr ''fine''))) scenario_B) = []"
  using C6_log_iff_500 [of "stub_client (Rejects api_failure)" scenario_A]
    C6_log_iff_500 [of "stub_client (Resolves (JStr ''fine''))" scenario_A]
    C6_log_iff_500 [of "stub_client (Resolves (JStr ''fine''))" scenario_B]
  by (simp add: run_def handler_defs scenario_A_def scenario_B_def stub_client_def
      api_failure_def fresh_def)

text \<open>
  C7. For a request with a truthy \<^verbatim>\<open>code\<close> the handler, having called the client, is
  suspended with no response sent; the rest of the run is the continuation applied to the
  way the call settled, so every response comes after the settlement.
\<close>

theorem C7_response_after_settlement:
  assumes "get_prop (body req) ''code'' = Inr code" and "truthy code"
  shows "\<exists>pending post.
           getReview_begin req fresh = Awaiting code pending
           \<and> responses (trace pending) = []
           \<and> ai_calls (trace pending) = [code]
           \<and> getReview ai req fresh = getReview_resume (ai code) pending
           \<and> run ai req = trace pending @ AiSettled (ai code) # post"
proof -
  let ?pending = "emit (AiCall code) fresh"
  have suspended: "getReview_begin req fresh = Awaiting code ?pending"
    using assms by (simp add: getReview_begin_def)
  have quiet: "responses (trace ?pending) = []" "ai_calls (trace ?pending) = [code]"
    by (simp_all add: emit_def fresh_def)
  have rest: "getReview ai req fresh = getReview_resume (ai code) ?pending"
    using suspended by (simp add: getReview_def)
  have "\<exists>post. trace (snd (getReview_resume (ai code) ?pending))
          = trace ?pending @ AiSettled (ai code) # post"
    by (simp add: getReview_resume_def catch_block_def res_send_def res_status_def
        console_error_def emit_def split: outcome.splits sum.splits)
  with suspended quiet rest show ?thesis
    by (auto simp: run_def)
qed

theorem C7_response_after_settlement_witness:
  "get_prop (body scenario_A) ''code'' = Inr (JStr ''function sum(){return a+b;}'')
   \<and> truthy (JStr ''function sum(){return a+b;}'')
   \<and> (\<exists>pending post.
         getReview_begin scenario_A fresh = Awaiting (JStr ''function sum(){return a+b;}'') pending
         \<and> responses (trace pending) = []
         \<and> ai_calls (trace pending) = [JStr ''function sum(){return a+b;}'']
         \<and> getReview (stub_client (Resolves (JStr ''fine''))) scenario_A fresh
             = getReview_resume (Resolves (JStr ''fine'')) pending
         \<and> run (stub_client (Resolves (JStr ''fine''))) scenario_A
             = trace pending @ AiSettled (Resolves (JStr ''fine'')) # post)"
  using C7_response_after_settlement [of scenario_A "JStr ''function sum(){return a+b;}''"
      "stub_client (Resolves (JStr ''fine''))"]
  by (simp add: scenario_A_def stub_client_def)

text \<open>
  C8. The claim: for every request and every behaviour of the client, resolving with any
  text or rejecting with any error, the handler returns and sends exactly one response,
  one of 400 with "Prompt is required", 200 with the client's text and 500 with "An error
  occurred while processing your request.". When the client rejects with null, the
  \<^verbatim>\<open>catch\<close> block throws on \<^verbatim>\<open>error.message\<close>: the handler sends no response at
  all, and its promise is rejected instead of fulfilled.
\<close>

theorem C8_rejecting_with_null_sends_no_response:
  "responses (run (stub_client (Rejects JNull)) scenario_A) = []
   \<and> run (stub_client (Rejects JNull)) scenario_A
       = [AiCall (JStr ''function sum(){return a+b;}''), AiSettled (Rejects JNull)]
   \<and> completes (stub_client (Rejects JNull)) scenario_A
       = Rejected (cannot_read ''null'' ''message'')"
  by (simp add: run_def completes_def handler_defs scenario_A_def stub_client_def fresh_def)

text \<open>
  C9. Whatever the type of a truthy \<^verbatim>\<open>code\<close> value (a non-zero number, an object, an
  array), validation passes and the client is called once with that very value: the
  handler suspends on the call made with the value as it was read, the one settlement of
  the run is the client's answer to that value, and nothing checks its type or converts
  it to a string.
\<close>

theorem C9_truthy_value_forwarded_as_is:
  assumes "get_prop (body req) ''code'' = Inr code" and "truthy code"
  shows "getReview_begin req fresh = Awaiting code (emit (AiCall code) fresh)
         \<and> ai_calls (run ai req) = [code]
         \<and> settlements (run ai req) = [ai code]
         \<and> (\<exists>post. run ai req = AiCall code # AiSettled (ai code) # post)"
proof -
  from call_of_valid(3) [OF assms, of ai]
  obtain post where "run ai req = AiCall code # AiSettled (ai code) # post"
    and "ai_calls post = []" and "settlements post = []"
    by blast
  moreover note call_of_valid(1) [OF assms]
  ultimately show ?thesis by simp
qed

theorem C9_truthy_value_forwarded_as_is_witness:
  "truthy (JNum (Finite 42)) \<and> truthy (JArr []) \<and> truthy (JObj [(''a'', Gives JNull)])
   \<and> settlements (run echo_client
        (scenario_C\<lparr>body := JObj [(''code'', Gives (JNum (Finite 42)))]\<rparr>))
       = [Resolves (JNum (Finite 42))]
   \<and> settlements (run echo_client
        (scenario_C\<lparr>body := JObj [(''code'', Gives (JArr []))]\<rparr>))
       = [Resolves (JArr [])]
   \<and> settlements (run echo_client
        (scenario_C\<lparr>body := JObj [(''code'', Gives (JObj [(''a'', Gives JNull)]))]\<rparr>))
       = [Resolves (JObj [(''a'', Gives JNull)])]"
  using C9_truthy_value_forwarded_as_is
      [of "scenario_C\<lparr>body := JObj [(''code'', Gives (JNum (Finite 42)))]\<rparr>"
        "JNum (Finite 42)" echo_client]
    C9_truthy_value_forwarded_as_is
      [of "scenario_C\<lparr>body := JObj [(''code'', Gives (JArr []))]\<rparr>" "JArr []" echo_client]
    C9_truthy_value_forwarded_as_is
      [of "scenario_C\<lparr>body := JObj [(''code'', Gives (JObj [(''a'', Gives JNull)]))]\<rparr>"
        "JObj [(''a'', Gives JNull)]" echo_client]
  by (simp add: echo_client_def)

text \<open>
  C10. Two requests whose bodies give the same \<^verbatim>\<open>code\<close> are handled the same way by
  the same client, whatever else differs in the bodies or in the rest of the requests:
  same events, hence same status and same body of the response.
\<close>

theorem C10_only_code_matters:
  assumes "get_prop (body req1) ''code'' = get_prop (body req2) ''code''"
  shows "getReview ai req1 w = getReview ai req2 w
         \<and> responses (run ai req1) = responses (run ai req2)"
  using assms by (simp add: run_def getReview_def getReview_begin_def)

theorem C10_only_code_matters_witness:
  "get_prop (body scenario_A) ''code'' = get_prop (body scenario_A_tagged) ''code''
   \<and> scenario_A \<noteq> scenario_A_tagged
   \<and> responses (run (stub_client (Resolves (JStr ''fine''))) scenario_A)
       = responses (run (stub_client (Resolves (JStr ''fine''))) scenario_A_tagged)"
  using C10_only_code_matters [of scenario_A scenario_A_tagged "stub_client (Resolves (JStr ''fine''))" fresh]
  by (simp add: scenario_A_def scenario_A_tagged_def)

end
